theory Spec2Isabelle
  imports Complex_Main "HOL-Library.AList"
begin

section \<open>Data model (shared/schema.ts)\<close>

text \<open>
  The order part of the in-memory store \<open>MemStorage\<close> (server/storage.ts) and the order
  routes of server/routes.ts.

  Modelling conventions.
  \<^item> A JavaScript \<open>Map<number, T>\<close> is an association list in insertion order:
    \<open>Map.get\<close> is \<open>map_of\<close>, \<open>Map.set\<close> is \<open>AList.update\<close> (an existing key keeps its
    place, a new key goes to the end), \<open>Map.delete\<close> is \<open>AList.delete\<close>, and
    \<open>Array.from(m.values())\<close> is \<open>map snd\<close>.
  \<^item> A property that may be \<open>null\<close>, \<open>undefined\<close> or absent is an \<open>option\<close>.
  \<^item> Numeric columns (decimal strings in the store, \<open>Number(...)\<close> in arithmetic) are the
    rational number they denote; arithmetic is exact, the rounding of IEEE doubles is not
    modelled.
  \<^item> \<open>new Date()\<close> is a clock reading passed in as \<open>now\<close>.
  \<^item> The fields \<open>id\<close> of an order and of an order item are called \<open>oid\<close> and \<open>iid\<close>,
    the order's \<open>notes\<close> is \<open>notesField\<close>, and the item's \<open>createdAt\<close> is
    \<open>itemCreatedAt\<close>.
\<close>

record InsertOrder =
  orderNumber :: string
  orderType :: string
  tableNumber :: "int option"
  customerName :: "string option"
  customerPhone :: "string option"
  subtotal :: "rat option"
  tax :: "rat option"
  packagingFee :: "rat option"
  totalAmount :: "rat option"
  paymentStatus :: "string option"
  paymentMethod :: "string option"
  bankReference :: "string option"
  cashAmount :: "rat option"
  bankAmount :: "rat option"
  notesField :: "string option"

record Order = InsertOrder +
  oid :: int
  createdAt :: nat
  updatedAt :: nat

text \<open>\<open>Partial<InsertOrder>\<close>: \<open>None\<close> is a key that is absent from the object.\<close>

record PartialInsertOrder =
  p_orderNumber :: "string option"
  p_orderType :: "string option"
  p_tableNumber :: "int option option"
  p_customerName :: "string option option"
  p_customerPhone :: "string option option"
  p_subtotal :: "rat option option"
  p_tax :: "rat option option"
  p_packagingFee :: "rat option option"
  p_totalAmount :: "rat option option"
  p_paymentStatus :: "string option option"
  p_paymentMethod :: "string option option"
  p_bankReference :: "string option option"
  p_cashAmount :: "rat option option"
  p_bankAmount :: "rat option option"
  p_notes :: "string option option"

record InsertOrderItem =
  orderId :: int
  menuItemId :: int
  quantity :: int
  price :: rat
  status :: string
  specialInstructions :: "string option"

record OrderItem = InsertOrderItem +
  iid :: int
  itemCreatedAt :: nat

record MemStorage =
  orders :: "(int \<times> Order) list"
  orderItems :: "(int \<times> OrderItem) list"
  currentOrderId :: int
  currentOrderItemId :: int


section \<open>Order operations of MemStorage\<close>

definition getOrder :: "MemStorage \<Rightarrow> int \<Rightarrow> Order option" where
  "getOrder s i = map_of (orders s) i"

text \<open>Newest first; the sort is stable.\<close>

definition getAllOrders :: "MemStorage \<Rightarrow> Order list" where
  "getAllOrders s = sort_key (\<lambda>ord. - int (createdAt ord)) (map snd (orders s))"

text \<open>\<open>{ ...order, id, createdAt: new Date(), updatedAt: new Date() }\<close>\<close>

definition createOrder :: "MemStorage \<Rightarrow> InsertOrder \<Rightarrow> nat \<Rightarrow> MemStorage \<times> Order" where
  "createOrder s ord now =
     (let i = currentOrderId s;
          newOrder = InsertOrder.extend ord (Order.fields i now now)
      in (s\<lparr>currentOrderId := i + 1, orders := AList.update i newOrder (orders s)\<rparr>, newOrder))"

text \<open>\<open>{ ...existingOrder, ...order }\<close>: every key present in the second object wins.\<close>

definition spreadOrder :: "Order \<Rightarrow> PartialInsertOrder \<Rightarrow> Order" where
  "spreadOrder ex p = ex\<lparr>
     orderNumber := (case p_orderNumber p of None \<Rightarrow> orderNumber ex | Some v \<Rightarrow> v),
     orderType := (case p_orderType p of None \<Rightarrow> orderType ex | Some v \<Rightarrow> v),
     tableNumber := (case p_tableNumber p of None \<Rightarrow> tableNumber ex | Some v \<Rightarrow> v),
     customerName := (case p_customerName p of None \<Rightarrow> customerName ex | Some v \<Rightarrow> v),
     customerPhone := (case p_customerPhone p of None \<Rightarrow> customerPhone ex | Some v \<Rightarrow> v),
     subtotal := (case p_subtotal p of None \<Rightarrow> subtotal ex | Some v \<Rightarrow> v),
     tax := (case p_tax p of None \<Rightarrow> tax ex | Some v \<Rightarrow> v),
     packagingFee := (case p_packagingFee p of None \<Rightarrow> packagingFee ex | Some v \<Rightarrow> v),
     totalAmount := (case p_totalAmount p of None \<Rightarrow> totalAmount ex | Some v \<Rightarrow> v),
     paymentStatus := (case p_paymentStatus p of None \<Rightarrow> paymentStatus ex | Some v \<Rightarrow> v),
     paymentMethod := (case p_paymentMethod p of None \<Rightarrow> paymentMethod ex | Some v \<Rightarrow> v),
     bankReference := (case p_bankReference p of None \<Rightarrow> bankReference ex | Some v \<Rightarrow> v),
     cashAmount := (case p_cashAmount p of None \<Rightarrow> cashAmount ex | Some v \<Rightarrow> v),
     bankAmount := (case p_bankAmount p of None \<Rightarrow> bankAmount ex | Some v \<Rightarrow> v),
     notesField := (case p_notes p of None \<Rightarrow> notesField ex | Some v \<Rightarrow> v)\<rparr>"

definition updateOrder ::
  "MemStorage \<Rightarrow> int \<Rightarrow> PartialInsertOrder \<Rightarrow> nat \<Rightarrow> MemStorage \<times> Order option" where
  "updateOrder s i p now =
     (case map_of (orders s) i of
        None \<Rightarrow> (s, None)
      | Some existingOrder \<Rightarrow>
          (let updatedOrder = (spreadOrder existingOrder p)\<lparr>updatedAt := now\<rparr>
           in (s\<lparr>orders := AList.update i updatedOrder (orders s)\<rparr>, Some updatedOrder)))"

text \<open>
  \<open>x || null\<close> on an optional argument: \<open>undefined\<close> and every falsy value (the number 0,
  the empty string) become \<open>null\<close>.
\<close>

definition orNullNum :: "rat option \<Rightarrow> rat option" where
  "orNullNum x = (case x of None \<Rightarrow> None | Some v \<Rightarrow> if v = 0 then None else Some v)"

definition orNullStr :: "string option \<Rightarrow> string option" where
  "orNullStr x = (case x of None \<Rightarrow> None | Some v \<Rightarrow> if v = [] then None else Some v)"

definition updateOrderPayment ::
  "MemStorage \<Rightarrow> int \<Rightarrow> string \<Rightarrow> string option \<Rightarrow> rat option \<Rightarrow> rat option \<Rightarrow> nat
     \<Rightarrow> MemStorage \<times> Order option" where
  "updateOrderPayment s i method bankRef cash bank now =
     (case map_of (orders s) i of
        None \<Rightarrow> (s, None)
      | Some existingOrder \<Rightarrow>
          (let updatedOrder = existingOrder\<lparr>
                 paymentStatus := Some ''paid'',
                 paymentMethod := Some method,
                 bankReference := orNullStr bankRef,
                 cashAmount := orNullNum cash,
                 bankAmount := orNullNum bank,
                 updatedAt := now\<rparr>
           in (s\<lparr>orders := AList.update i updatedOrder (orders s)\<rparr>, Some updatedOrder)))"

section \<open>Order item operations of MemStorage\<close>

definition getOrderItems :: "MemStorage \<Rightarrow> int \<Rightarrow> OrderItem list" where
  "getOrderItems s i = filter (\<lambda>item. orderId item = i) (map snd (orderItems s))"

definition noFields :: PartialInsertOrder where
  "noFields = \<lparr>p_orderNumber = None, p_orderType = None, p_tableNumber = None,
     p_customerName = None, p_customerPhone = None, p_subtotal = None, p_tax = None,
     p_packagingFee = None, p_totalAmount = None, p_paymentStatus = None,
     p_paymentMethod = None, p_bankReference = None, p_cashAmount = None,
     p_bankAmount = None, p_notes = None\<rparr>"

text \<open>
  \<open>items.reduce((sum, item) => sum + Number(item.price) * item.quantity, 0)\<close>,
  \<open>subtotal * 0.05\<close>, \<open>subtotal + tax + Number(order.packagingFee || 0)\<close>.
\<close>

definition recalculateOrderTotal :: "MemStorage \<Rightarrow> int \<Rightarrow> nat \<Rightarrow> MemStorage" where
  "recalculateOrderTotal s i now =
     (case getOrder s i of
        None \<Rightarrow> s
      | Some ord \<Rightarrow>
          (let items = getOrderItems s i;
               subtotal' = foldl (\<lambda>sum item. sum + price item * of_int (quantity item)) 0 items;
               tax' = subtotal' * (5 / 100);
               totalAmount' = subtotal' + tax' + (case packagingFee ord of None \<Rightarrow> 0 | Some f \<Rightarrow> f)
           in fst (updateOrder s i
                 (noFields\<lparr>p_subtotal := Some (Some subtotal'), p_tax := Some (Some tax'),
                    p_totalAmount := Some (Some totalAmount')\<rparr>) now)))"

definition addOrderItem :: "MemStorage \<Rightarrow> InsertOrderItem \<Rightarrow> nat \<Rightarrow> MemStorage \<times> OrderItem" where
  "addOrderItem s item now =
     (let i = currentOrderItemId s;
          newItem = InsertOrderItem.extend item (OrderItem.fields i now);
          s1 = s\<lparr>currentOrderItemId := i + 1, orderItems := AList.update i newItem (orderItems s)\<rparr>
      in (recalculateOrderTotal s1 (orderId item) now, newItem))"

definition updateOrderItemStatus ::
  "MemStorage \<Rightarrow> int \<Rightarrow> string \<Rightarrow> MemStorage \<times> OrderItem option" where
  "updateOrderItemStatus s i st =
     (case map_of (orderItems s) i of
        None \<Rightarrow> (s, None)
      | Some existingItem \<Rightarrow>
          (let updatedItem = existingItem\<lparr>status := st\<rparr>
           in (s\<lparr>orderItems := AList.update i updatedItem (orderItems s)\<rparr>, Some updatedItem)))"

definition updateOrderItemQuantity ::
  "MemStorage \<Rightarrow> int \<Rightarrow> int \<Rightarrow> nat \<Rightarrow> MemStorage \<times> OrderItem option" where
  "updateOrderItemQuantity s i q now =
     (case map_of (orderItems s) i of
        None \<Rightarrow> (s, None)
      | Some existingItem \<Rightarrow>
          (let updatedItem = existingItem\<lparr>quantity := q\<rparr>;
               s1 = s\<lparr>orderItems := AList.update i updatedItem (orderItems s)\<rparr>
           in (recalculateOrderTotal s1 (orderId existingItem) now, Some updatedItem)))"

definition removeOrderItem :: "MemStorage \<Rightarrow> int \<Rightarrow> nat \<Rightarrow> MemStorage \<times> bool" where
  "removeOrderItem s i now =
     (case map_of (orderItems s) i of
        None \<Rightarrow> (s, False)
      | Some item \<Rightarrow>
          (let result = (i \<in> fst ` set (orderItems s));
               s1 = s\<lparr>orderItems := AList.delete i (orderItems s)\<rparr>
           in ((if result then recalculateOrderTotal s1 (orderId item) now else s1), result)))"

section \<open>Routes (server/routes.ts)\<close>

text \<open>
  The routes call the store through \<open>LocalIntegratedStorage\<close>, which hands every order
  and order-item operation to \<open>MemStorage\<close> unchanged. A handler returns the store after
  the request and either a failure (the 404 and 400 answers) or the JSON body.
\<close>

datatype failure = NotFound | Conflict

text \<open>\<open>String(n)\<close> of a non-negative integer: its decimal digits.\<close>

definition digitChar :: "nat \<Rightarrow> char" where
  "digitChar d = char_of (48 + d)"

function String_number :: "nat \<Rightarrow> string" where
  "String_number n =
     (if n < 10 then [digitChar n] else String_number (n div 10) @ [digitChar (n mod 10)])"
  by pat_completeness auto
termination
  by (relation "measure (\<lambda>n. n)") auto

declare String_number.simps [simp del]

text \<open>POST /api/orders: \<open>String(1000 + allOrders.length + 1)\<close>, \<open>{ ...req.body, orderNumber }\<close>.\<close>

definition post_orders :: "MemStorage \<Rightarrow> InsertOrder \<Rightarrow> nat \<Rightarrow> MemStorage \<times> Order" where
  "post_orders s body now =
     (let allOrders = getAllOrders s;
          orderNumber' = String_number (1000 + length allOrders + 1);
          orderData = body\<lparr>orderNumber := orderNumber'\<rparr>
      in createOrder s orderData now)"

record KotResponse =
  kot_order :: Order
  kotItems :: "OrderItem list"
  allItems :: "OrderItem list"

record BillResponse =
  bill_order :: Order
  bill_items :: "OrderItem list"

text \<open>
  GET /api/kot/:orderId. The calls of \<open>updateOrderItemStatus\<close> under \<open>Promise.all\<close> contain
  no \<open>await\<close>, so each runs to its end when \<open>map\<close> makes it, in the order of the list.
\<close>

definition get_kot :: "MemStorage \<Rightarrow> int \<Rightarrow> MemStorage \<times> (failure + KotResponse)" where
  "get_kot s i =
     (case getOrder s i of
        None \<Rightarrow> (s, Inl NotFound)
      | Some ord \<Rightarrow>
          (let items = getOrderItems s i;
               pendingItems = filter (\<lambda>item. status item = ''pending'') items;
               s' = foldl (\<lambda>st item. fst (updateOrderItemStatus st (iid item) ''kot_printed''))
                      s pendingItems;
               updatedItems = getOrderItems s' i
           in (s', Inr \<lparr>kot_order = ord, kotItems = pendingItems, allItems = updatedItems\<rparr>)))"

text \<open>GET /api/bill/:orderId. The answer for pending items is status 400.\<close>

definition get_bill :: "MemStorage \<Rightarrow> int \<Rightarrow> MemStorage \<times> (failure + BillResponse)" where
  "get_bill s i =
     (case getOrder s i of
        None \<Rightarrow> (s, Inl NotFound)
      | Some ord \<Rightarrow>
          (let items = getOrderItems s i;
               pendingItems = filter (\<lambda>item. status item = ''pending'') items
           in if length pendingItems > 0 then (s, Inl Conflict)
              else
                (let s' = foldl (\<lambda>st item. fst (updateOrderItemStatus st (iid item) ''completed''))
                            s items;
                     updatedItems = getOrderItems s' i
                 in (s', Inr \<lparr>bill_order = ord, bill_items = updatedItems\<rparr>))))"

text \<open>The requests that reach the order store, and the store after each.\<close>

datatype request =
    PostOrder InsertOrder
  | PutOrder int PartialInsertOrder
  | PostPayment int string "string option" "rat option" "rat option"
  | PostItem int InsertOrderItem
  | PutItemStatus int string
  | PutItemQuantity int int
  | DeleteItem int
  | GetKot int
  | GetBill int

fun handle :: "MemStorage \<Rightarrow> nat \<Rightarrow> request \<Rightarrow> MemStorage" where
  "handle s now (PostOrder body) = fst (post_orders s body now)"
| "handle s now (PutOrder i p) = fst (updateOrder s i p now)"
| "handle s now (PostPayment i method bankRef cash bank) =
     fst (updateOrderPayment s i method bankRef cash bank now)"
| "handle s now (PostItem i body) = fst (addOrderItem s (body\<lparr>orderId := i\<rparr>) now)"
| "handle s now (PutItemStatus i st) = fst (updateOrderItemStatus s i st)"
| "handle s now (PutItemQuantity i q) = fst (updateOrderItemQuantity s i q now)"
| "handle s now (DeleteItem i) = fst (removeOrderItem s i now)"
| "handle s now (GetKot i) = fst (get_kot s i)"
| "handle s now (GetBill i) = fst (get_bill s i)"

text \<open>A sequential history: each request with the clock reading at which it is served.\<close>

fun run :: "MemStorage \<Rightarrow> (nat \<times> request) list \<Rightarrow> MemStorage" where
  "run s [] = s"
| "run s ((now, r) # rs) = run (handle s now r) rs"

text \<open>The order numbers that the creations of a history assign, in order.\<close>

fun assignedOrderNumbers :: "MemStorage \<Rightarrow> (nat \<times> request) list \<Rightarrow> string list" where
  "assignedOrderNumbers s [] = []"
| "assignedOrderNumbers s ((now, r) # rs) =
     (case r of PostOrder body \<Rightarrow> [orderNumber (snd (post_orders s body now))] | _ \<Rightarrow> [])
       @ assignedOrderNumbers (handle s now r) rs"

section \<open>Properties of a store\<close>





text \<open>The place of a status in the lifecycle pending, kot_printed, completed.\<close>

definition lifecycle :: "string \<Rightarrow> bool" where
  "lifecycle st \<longleftrightarrow> st = ''pending'' \<or> st = ''kot_printed'' \<or> st = ''completed''"

definition statusRank :: "string \<Rightarrow> nat" where
  "statusRank st = (if st = ''completed'' then 2 else if st = ''kot_printed'' then 1 else 0)"

definition isStatusUpdate :: "request \<Rightarrow> bool" where
  "isStatusUpdate r = (case r of PutItemStatus i st \<Rightarrow> True | _ \<Rightarrow> False)"

section \<open>Example stores\<close>

definition order1 :: Order where
  "order1 = \<lparr>orderNumber = ''1001'', orderType = ''dine_in'', tableNumber = Some 3,
     customerName = None, customerPhone = None, subtotal = Some 100, tax = Some 0,
     packagingFee = None, totalAmount = Some 100, paymentStatus = Some ''unpaid'',
     paymentMethod = None, bankReference = None, cashAmount = None, bankAmount = None,
     notesField = None, oid = 1, createdAt = 10, updatedAt = 10\<rparr>"

definition item1 :: OrderItem where
  "item1 = \<lparr>orderId = 1, menuItemId = 7, quantity = 2, price = 150, status = ''pending'',
     specialInstructions = None, iid = 1, itemCreatedAt = 11\<rparr>"

definition item2 :: OrderItem where
  "item2 = \<lparr>orderId = 1, menuItemId = 8, quantity = 1, price = 50, status = ''completed'',
     specialInstructions = None, iid = 2, itemCreatedAt = 12\<rparr>"

definition store1 :: MemStorage where
  "store1 = \<lparr>orders = [(1, order1)], orderItems = [], currentOrderId = 2,
     currentOrderItemId = 1\<rparr>"

definition store2 :: MemStorage where
  "store2 = \<lparr>orders = [(1, order1)], orderItems = [(1, item1), (2, item2)], currentOrderId = 2,
     currentOrderItemId = 3\<rparr>"


definition itemBody1 :: InsertOrderItem where
  "itemBody1 = \<lparr>orderId = 1, menuItemId = 9, quantity = 2, price = 150, status = ''pending'',
     specialInstructions = None\<rparr>"

section \<open>Basic facts\<close>

lemmas ext_simps = InsertOrder.defs Order.defs InsertOrderItem.defs OrderItem.defs

lemma updateOrderPayment_found:
  assumes "map_of (orders s) i = Some ex"
  shows "updateOrderPayment s i m r c b now =
    (s\<lparr>orders := AList.update i
          (ex\<lparr>paymentStatus := Some ''paid'', paymentMethod := Some m,
              bankReference := orNullStr r, cashAmount := orNullNum c,
              bankAmount := orNullNum b, updatedAt := now\<rparr>) (orders s)\<rparr>,
     Some (ex\<lparr>paymentStatus := Some ''paid'', paymentMethod := Some m,
              bankReference := orNullStr r, cashAmount := orNullNum c,
              bankAmount := orNullNum b, updatedAt := now\<rparr>))"
  using assms by (simp add: updateOrderPayment_def Let_def)

section \<open>Payment settlement\<close>

text \<open>
  C5 (as amended): \<open>updateOrderPayment\<close> on an unknown id returns nothing and leaves the store
  as it is; on an existing order it returns the updated order, which is also the stored one,
  with \<open>paymentStatus = paid\<close> and the given method, with \<open>null\<close> for a reference or amount
  that was not given, and with the given reference or amount when it is a non-empty string or
  a non-zero number.
\<close>

theorem updateOrderPayment_settles:
  assumes "updateOrderPayment s i m r c b now = (s', res)"
  shows "case map_of (orders s) i of
      None \<Rightarrow> res = None \<and> s' = s
    | Some ex \<Rightarrow> \<exists>ord. res = Some ord \<and> map_of (orders s') i = Some ord
        \<and> paymentStatus ord = Some ''paid'' \<and> paymentMethod ord = Some m
        \<and> (r = None \<longrightarrow> bankReference ord = None)
        \<and> (c = None \<longrightarrow> cashAmount ord = None)
        \<and> (b = None \<longrightarrow> bankAmount ord = None)
        \<and> (\<forall>v. r = Some v \<and> v \<noteq> [] \<longrightarrow> bankReference ord = Some v)
        \<and> (\<forall>v. c = Some v \<and> v \<noteq> 0 \<longrightarrow> cashAmount ord = Some v)
        \<and> (\<forall>v. b = Some v \<and> v \<noteq> 0 \<longrightarrow> bankAmount ord = Some v)"
proof (cases "map_of (orders s) i")
  case None
  with assms show ?thesis by (auto simp: updateOrderPayment_def)
next
  case (Some ex)
  let ?ord = "ex\<lparr>paymentStatus := Some ''paid'', paymentMethod := Some m,
              bankReference := orNullStr r, cashAmount := orNullNum c,
              bankAmount := orNullNum b, updatedAt := now\<rparr>"
  from assms Some have res: "res = Some ?ord"
    and s': "s' = s\<lparr>orders := AList.update i ?ord (orders s)\<rparr>"
    by (simp_all add: updateOrderPayment_found)
  have "map_of (orders s') i = Some ?ord"
    by (simp add: s' update_conv')
  with res Some show ?thesis
    by (simp add: orNullNum_def orNullStr_def)
qed

text \<open>The split 60 + 40 on an order of total 100, and an unknown id.\<close>

theorem updateOrderPayment_settles_witness:
  "totalAmount order1 = Some 100
   \<and> map_of (orders store1) 1 = Some order1
   \<and> map_option paymentStatus (snd (updateOrderPayment store1 1 ''split'' (Some ''UTR7'') (Some 60) (Some 40) 20)) = Some (Some ''paid'')
   \<and> map_option cashAmount (snd (updateOrderPayment store1 1 ''split'' (Some ''UTR7'') (Some 60) (Some 40) 20)) = Some (Some 60)
   \<and> map_option bankAmount (snd (updateOrderPayment store1 1 ''split'' (Some ''UTR7'') (Some 60) (Some 40) 20)) = Some (Some 40)
   \<and> map_of (orders store1) 8 = None
   \<and> updateOrderPayment store1 8 ''cash'' None None None 20 = (store1, None)"
proof -
  have h: "map_of (orders store1) 1 = Some order1" "map_of (orders store1) 8 = None"
    by (simp_all add: store1_def)
  obtain s' res where e: "updateOrderPayment store1 1 ''split'' (Some ''UTR7'') (Some 60) (Some 40) 20 = (s', res)"
    by (cases "updateOrderPayment store1 1 ''split'' (Some ''UTR7'') (Some 60) (Some 40) 20")
  obtain s2 res2 where e2: "updateOrderPayment store1 8 ''cash'' None None None 20 = (s2, res2)"
    by (cases "updateOrderPayment store1 8 ''cash'' None None None 20")
  from updateOrderPayment_settles [OF e] updateOrderPayment_settles [OF e2] h e e2 show ?thesis
    by (auto simp: order1_def)
qed

text \<open>A split of 100 + 0: the bank amount given is 0, the one stored is \<open>null\<close>.\<close>

theorem updateOrderPayment_zero_counterexample:
  "map_of (orders store1) 1 = Some order1
   \<and> map_option bankAmount (snd (updateOrderPayment store1 1 ''split'' (Some ''UTR7'') (Some 100) (Some 0) 20))
       = Some None
   \<and> map_option bankAmount (snd (updateOrderPayment store1 1 ''split'' (Some ''UTR7'') (Some 100) (Some 0) 20))
       \<noteq> Some (Some 0)"
  by (simp add: store1_def updateOrderPayment_def orNullNum_def orNullStr_def Let_def)

text \<open>
  C10: on an existing order, a cash amount 0, a bank amount 0 or an empty bank reference is
  stored as \<open>null\<close>, and the call has the same result and leaves the same store as the call
  without that argument.
\<close>

theorem updateOrderPayment_falsy_null:
  assumes "map_of (orders s) i = Some ex"
    and "updateOrderPayment s i m r c b now = (s', res)"
  shows "\<exists>ord. res = Some ord \<and> map_of (orders s') i = Some ord
    \<and> (c = Some 0 \<longrightarrow> cashAmount ord = None \<and> updateOrderPayment s i m r None b now = (s', res))
    \<and> (b = Some 0 \<longrightarrow> bankAmount ord = None \<and> updateOrderPayment s i m r c None now = (s', res))
    \<and> (r = Some [] \<longrightarrow> bankReference ord = None \<and> updateOrderPayment s i m None c b now = (s', res))"
proof -
  let ?ord = "ex\<lparr>paymentStatus := Some ''paid'', paymentMethod := Some m,
              bankReference := orNullStr r, cashAmount := orNullNum c,
              bankAmount := orNullNum b, updatedAt := now\<rparr>"
  from assms have res: "res = Some ?ord"
    and s': "s' = s\<lparr>orders := AList.update i ?ord (orders s)\<rparr>"
    by (simp_all add: updateOrderPayment_found)
  have "map_of (orders s') i = Some ?ord"
    by (simp add: s' update_conv')
  moreover have "c = Some 0 \<longrightarrow> cashAmount ?ord = None \<and> updateOrderPayment s i m r None b now = (s', res)"
    by (simp add: updateOrderPayment_found [OF assms(1)] res s' orNullNum_def)
  moreover have "b = Some 0 \<longrightarrow> bankAmount ?ord = None \<and> updateOrderPayment s i m r c None now = (s', res)"
    by (simp add: updateOrderPayment_found [OF assms(1)] res s' orNullNum_def)
  moreover have "r = Some [] \<longrightarrow> bankReference ?ord = None \<and> updateOrderPayment s i m None c b now = (s', res)"
    by (simp add: updateOrderPayment_found [OF assms(1)] res s' orNullStr_def)
  ultimately show ?thesis using res by blast
qed

theorem updateOrderPayment_falsy_null_witness:
  "map_of (orders store1) 1 = Some order1
   \<and> map_option cashAmount (snd (updateOrderPayment store1 1 ''split'' (Some []) (Some 0) (Some 0) 20)) = Some None
   \<and> map_option bankAmount (snd (updateOrderPayment store1 1 ''split'' (Some []) (Some 0) (Some 0) 20)) = Some None
   \<and> map_option bankReference (snd (updateOrderPayment store1 1 ''split'' (Some []) (Some 0) (Some 0) 20)) = Some None"
proof -
  have h: "map_of (orders store1) 1 = Some order1"
    by (simp add: store1_def)
  obtain s' res where e: "updateOrderPayment store1 1 ''split'' (Some []) (Some 0) (Some 0) 20 = (s', res)"
    by (cases "updateOrderPayment store1 1 ''split'' (Some []) (Some 0) (Some 0) 20")
  from updateOrderPayment_falsy_null [OF h e] h e show ?thesis
    by auto
qed

section \<open>Order creation\<close>




section \<open>Items of unknown orders and unknown items\<close>

text \<open>
  C7: \<open>removeOrderItem\<close> on an id that is not in the item store returns \<open>false\<close> and leaves
  the whole store, so every order's totals, unchanged.
\<close>

theorem removeOrderItem_unknown:
  "map_of (orderItems s) i = None \<Longrightarrow> removeOrderItem s i now = (s, False)"
  by (simp add: removeOrderItem_def)

theorem removeOrderItem_unknown_witness:
  "map_of (orderItems store2) 5 = None \<and> removeOrderItem store2 5 30 = (store2, False)"
  using removeOrderItem_unknown [of store2 5 30] by (simp add: store2_def)

text \<open>
  C9: \<open>addOrderItem\<close> for an order id that is not in the orders map signals nothing: it
  returns the item with the next id, the item is in the item store and among the items of
  that (nonexistent) order, and nothing but the item store and its counter has changed.
\<close>

theorem addOrderItem_unknown_order:
  assumes "getOrder s (orderId item) = None"
    and "addOrderItem s item now = (s', r)"
  shows "r = InsertOrderItem.extend item (OrderItem.fields (currentOrderItemId s) now)
    \<and> iid r = currentOrderItemId s
    \<and> map_of (orderItems s') (iid r) = Some r
    \<and> r \<in> set (getOrderItems s' (orderId item))
    \<and> getOrder s' (orderId r) = None
    \<and> s' = s\<lparr>currentOrderItemId := currentOrderItemId s + 1,
              orderItems := AList.update (currentOrderItemId s) r (orderItems s)\<rparr>"
proof -
  let ?r = "InsertOrderItem.extend item (OrderItem.fields (currentOrderItemId s) now)"
  let ?s1 = "s\<lparr>currentOrderItemId := currentOrderItemId s + 1,
              orderItems := AList.update (currentOrderItemId s) ?r (orderItems s)\<rparr>"
  have rec: "recalculateOrderTotal ?s1 (orderId item) now = ?s1"
    using assms(1) by (simp add: recalculateOrderTotal_def getOrder_def)
  have "addOrderItem s item now = (?s1, ?r)"
    using rec by (simp add: addOrderItem_def Let_def)
  with assms(2) have r: "r = ?r" and s': "s' = ?s1"
    by (metis snd_conv, metis fst_conv)
  have look: "map_of (orderItems ?s1) (currentOrderItemId s) = Some ?r"
    by (simp add: update_conv')
  have mem: "?r \<in> set (getOrderItems ?s1 (orderId item))"
    using map_of_SomeD [OF look] by (force simp: getOrderItems_def ext_simps)
  show ?thesis
    using r s' look mem assms(1) by (simp add: ext_simps getOrder_def)
qed

theorem addOrderItem_unknown_order_witness:
  "getOrder store2 (orderId (itemBody1\<lparr>orderId := 9\<rparr>)) = None
   \<and> iid (snd (addOrderItem store2 (itemBody1\<lparr>orderId := 9\<rparr>) 30)) = 3
   \<and> orders (fst (addOrderItem store2 (itemBody1\<lparr>orderId := 9\<rparr>) 30)) = orders store2"
proof -
  have h: "getOrder store2 (orderId (itemBody1\<lparr>orderId := 9\<rparr>)) = None"
    by (simp add: getOrder_def store2_def itemBody1_def)
  show ?thesis
    using h addOrderItem_unknown_order [OF h, of 30 "fst (addOrderItem store2 (itemBody1\<lparr>orderId := 9\<rparr>) 30)"
      "snd (addOrderItem store2 (itemBody1\<lparr>orderId := 9\<rparr>) 30)"]
    by (simp add: ext_simps store2_def)
qed

section \<open>Billing\<close>




lemma recalculateOrderTotal_unknown:
  "getOrder s i = None \<Longrightarrow> recalculateOrderTotal s i now = s"
  by (simp add: recalculateOrderTotal_def)




end
